theory Spec2Isabelle
  imports Main
begin

section \<open>Data model of \<open>beanie/odm/queries/find.py\<close>\<close>

text \<open>
  \<open>SortDirection\<close> is the enum of \<open>beanie.odm.enums\<close>; only its two members matter here.
\<close>

datatype SortDirection = ASCENDING | DESCENDING

text \<open>
  The Python values that can reach \<open>sort\<close> and the \<open>sort_expressions\<close> validators:
  \<open>None\<close>, a tuple of any length with any values in it, a string, a list of values, a
  member of \<open>SortDirection\<close>, and an object of any other type (a dict, a set, ...), which
  is identified by a number only. The tuple of the declared element type
  \<open>Tuple[str, SortDirection]\<close> is \<open>PyTuple [PyStr field, PyDirection d]\<close>.
\<close>

datatype sort_arg =
    PyNone
  | PyTuple "sort_arg list"
  | PyStr string
  | PyList "sort_arg list"
  | PyDirection SortDirection
  | PyObject nat

text \<open>
  A find expression is a raw mapping or a find operator; \<open>And\<close> is the logical operator of
  \<open>beanie.odm.operators.find.logical\<close>, holding the expressions it was called with in
  order. The empty dict \<open>{}\<close> is \<open>RawMapping []\<close>.
\<close>

datatype find_expr =
    RawMapping "(string \<times> string) list"
  | FindOperator string
  | And "find_expr list"

type_synonym model_type = string
type_synonym ClientSession = nat
type_synonym AsyncIOMotorCursor = nat

text \<open>
  Every \<open>raise\<close> of the source is a value. \<open>TypeError_Wrong_sort_type\<close> is the
  \<open>TypeError("Wrong sort type")\<close> of \<open>validate_sort_items\<close> (the spec's
  InvalidSortSpecification), \<open>ValueError_sort_requires_arguments\<close> the \<open>ValueError\<close> of
  \<open>sort\<close> (the spec's EmptySortCall). The other three are raised by the validation of
  the field types: \<open>conint(ge = 0)\<close>, the element type of \<open>sort_expressions\<close>, and
  \<open>parse_obj\<close>.
\<close>

datatype error =
    ValueError_sort_requires_arguments
  | TypeError_Wrong_sort_type
  | ValidationError_not_ge_0
  | ValidationError_not_a_sort_tuple
  | ValidationError_parse_obj

record FindQuery =
  document_model :: model_type
  find_expressions :: "find_expr list"
  projection_model :: model_type
  sort_expressions :: "(string \<times> SortDirection) list"
  skip_number :: int
  limit_number :: int
  is_single :: bool
  cursor :: "AsyncIOMotorCursor option"
  session :: "ClientSession option"

text \<open>
  \<open>FindQuery(document_model = dm)\<close>: the class defaults, with \<open>default_projection_model\<close>
  replacing the absent projection model by the document model.
\<close>

definition default_projection_model :: "model_type option \<Rightarrow> model_type \<Rightarrow> model_type" where
  "default_projection_model val values_document_model =
     (case val of Some m \<Rightarrow> m | None \<Rightarrow> values_document_model)"

definition FindQuery_init :: "model_type \<Rightarrow> FindQuery" where
  "FindQuery_init dm =
     \<lparr> document_model = dm,
       find_expressions = [],
       projection_model = default_projection_model None dm,
       sort_expressions = [],
       skip_number = 0,
       limit_number = 0,
       is_single = False,
       cursor = None,
       session = None \<rparr>"

section \<open>Validators of \<open>sort_expressions\<close>\<close>

definition startswith :: "string \<Rightarrow> string \<Rightarrow> bool" where
  "startswith val p = (take (length p) val = p)"

fun validate_sort_items :: "sort_arg \<Rightarrow> error + sort_arg" where
  "validate_sort_items PyNone = Inr PyNone"
| "validate_sort_items (PyTuple xs) = Inr (PyTuple xs)"
| "validate_sort_items (PyStr val) =
     (if startswith val ''+'' then Inr (PyTuple [PyStr (drop 1 val), PyDirection ASCENDING])
      else if startswith val ''-'' then Inr (PyTuple [PyStr (drop 1 val), PyDirection DESCENDING])
      else Inr (PyTuple [PyStr val, PyDirection ASCENDING]))"
| "validate_sort_items (PyList xs) = Inl TypeError_Wrong_sort_type"
| "validate_sort_items (PyDirection d) = Inl TypeError_Wrong_sort_type"
| "validate_sort_items (PyObject n) = Inl TypeError_Wrong_sort_type"

definition validate_sort_no_none :: "sort_arg list \<Rightarrow> sort_arg list" where
  "validate_sort_no_none val = [item \<leftarrow> val. item \<noteq> PyNone]"

text \<open>
  After the validators of the class, the item must be of the declared element type
  \<open>Tuple[str, SortDirection]\<close>: a tuple of two values, a string and a sort direction.
  Every other value is refused here, a tuple of another length or with other values in
  it among them.
\<close>

fun validate_sort_tuple :: "sort_arg \<Rightarrow> error + (string \<times> SortDirection)" where
  "validate_sort_tuple (PyTuple [PyStr f, PyDirection d]) = Inr (f, d)"
| "validate_sort_tuple v = Inl ValidationError_not_a_sort_tuple"

definition validate_sort_item :: "sort_arg \<Rightarrow> error + (string \<times> SortDirection)" where
  "validate_sort_item item =
     (case validate_sort_items item of
        Inl e \<Rightarrow> Inl e
      | Inr v \<Rightarrow> validate_sort_tuple v)"

text \<open>
  The validation of the items of a list, one by one, by a validator \<open>f\<close>. It gives the
  validated list, or the first error, and next to it the items it has called \<open>f\<close> on, in
  the order of the calls: every item is validated, also after one has failed.
\<close>

fun validate_each :: "('a \<Rightarrow> error + 'b) \<Rightarrow> 'a list \<Rightarrow> (error + 'b list) \<times> 'a list" where
  "validate_each f [] = (Inr [], [])"
| "validate_each f (x # xs) =
     (case validate_each f xs of
        (rest, called) \<Rightarrow>
          ((case f x of
              Inl e \<Rightarrow> Inl e
            | Inr y \<Rightarrow> (case rest of Inl e \<Rightarrow> Inl e | Inr ys \<Rightarrow> Inr (y # ys))),
           x # called))"

text \<open>
  The validation of a value assigned to a list field. pydantic runs the validators of
  the whole field that are marked \<open>pre\<close> on the assigned list, then validates the items
  of what they return one by one.
\<close>

definition validate_list_field ::
  "('a list \<Rightarrow> 'a list) \<Rightarrow> ('a \<Rightarrow> error + 'b) \<Rightarrow> 'a list \<Rightarrow> (error + 'b list) \<times> 'a list" where
  "validate_list_field pre_validator item_validator val =
     validate_each item_validator (pre_validator val)"

text \<open>
  For \<open>sort_expressions\<close> the \<open>pre\<close> validator of the whole field is
  \<open>validate_sort_no_none\<close>, and an item is validated by the \<open>each_item\<close> validator
  \<open>validate_sort_items\<close> followed by the check of the element type. The run gives the
  validated list with the items that the validation of an item, and so
  \<open>validate_sort_items\<close>, was called on; the value assigned is the first part.
\<close>

definition validate_sort_expressions_run ::
  "sort_arg list \<Rightarrow> (error + (string \<times> SortDirection) list) \<times> sort_arg list" where
  "validate_sort_expressions_run val =
     validate_list_field validate_sort_no_none validate_sort_item val"

definition validate_sort_expressions ::
  "sort_arg list \<Rightarrow> error + (string \<times> SortDirection) list" where
  "validate_sort_expressions val = fst (validate_sort_expressions_run val)"

section \<open>Validation on assignment\<close>

text \<open>
  The class is configured with \<open>validate_assignment = True\<close>: \<open>setattr\<close> validates the
  assigned value with the validators of that field and stores the validated value. These
  are the keyword arguments that \<open>_copy_update\<close> receives in this file.
\<close>

datatype assignment =
    Set_find_expressions "find_expr list"
  | Set_projection_model "model_type option"
  | Set_sort_expressions "sort_arg list"
  | Set_skip_number int
  | Set_limit_number int
  | Set_is_single bool

fun validate_assignment :: "FindQuery \<Rightarrow> assignment \<Rightarrow> error + FindQuery" where
  "validate_assignment q (Set_find_expressions v) = Inr (q\<lparr>find_expressions := v\<rparr>)"
| "validate_assignment q (Set_projection_model v) =
     Inr (q\<lparr>projection_model := default_projection_model v (document_model q)\<rparr>)"
| "validate_assignment q (Set_sort_expressions v) =
     (case validate_sort_expressions v of
        Inl e \<Rightarrow> Inl e
      | Inr s \<Rightarrow> Inr (q\<lparr>sort_expressions := s\<rparr>))"
| "validate_assignment q (Set_skip_number n) =
     (if 0 \<le> n then Inr (q\<lparr>skip_number := n\<rparr>) else Inl ValidationError_not_ge_0)"
| "validate_assignment q (Set_limit_number n) =
     (if 0 \<le> n then Inr (q\<lparr>limit_number := n\<rparr>) else Inl ValidationError_not_ge_0)"
| "validate_assignment q (Set_is_single b) = Inr (q\<lparr>is_single := b\<rparr>)"

section \<open>Objects\<close>

text \<open>
  Query objects live in a store: a reference is an index into the list of all objects
  created so far, and a new object is appended at the end. A method takes the store and
  returns its result, or the error it raised, with the store it leaves behind. The lists
  held by an object are values: the source never updates a list in place (\<open>+\<close>, the list
  comprehension and the validators all build new lists).
\<close>

type_synonym ref = nat
type_synonym heap = "FindQuery list"
type_synonym 'a action = "heap \<Rightarrow> (error + 'a) \<times> heap"

definition returns :: "'a \<Rightarrow> 'a action" where
  "returns x h = (Inr x, h)"

definition raises :: "error \<Rightarrow> 'a action" where
  "raises e h = (Inl e, h)"

definition and_then :: "'a action \<Rightarrow> ('a \<Rightarrow> 'b action) \<Rightarrow> 'b action" where
  "and_then m f h = (case m h of (Inl e, h') \<Rightarrow> (Inl e, h') | (Inr x, h') \<Rightarrow> f x h')"

text \<open>
  \<open>self.copy(update = u)\<close> of pydantic: a new object with the fields of \<open>self\<close>, those of
  \<open>u\<close> replaced without validation. \<open>self.copy()\<close> is \<open>copy_q self id\<close>.
\<close>

definition copy_q :: "ref \<Rightarrow> (FindQuery \<Rightarrow> FindQuery) \<Rightarrow> ref action" where
  "copy_q self update h = (Inr (length h), h @ [update (h ! self)])"

definition setattr :: "ref \<Rightarrow> assignment \<Rightarrow> unit action" where
  "setattr res kv h =
     (case validate_assignment (h ! res) kv of
        Inl e \<Rightarrow> (Inl e, h)
      | Inr q \<Rightarrow> (Inr (), h[res := q]))"

section \<open>Setters\<close>

fun setattr_items :: "ref \<Rightarrow> assignment list \<Rightarrow> unit action" where
  "setattr_items res [] = returns ()"
| "setattr_items res (kv # kwargs) = and_then (setattr res kv) (\<lambda>_. setattr_items res kwargs)"

definition copy_update :: "ref \<Rightarrow> assignment list \<Rightarrow> ref action" where
  "copy_update self kwargs =
     and_then (copy_q self id) (\<lambda>res.
     and_then (setattr_items res kwargs) (\<lambda>_.
     returns res))"

definition limit :: "ref \<Rightarrow> int \<Rightarrow> ref action" where
  "limit self n = copy_update self [Set_limit_number n]"

definition skip :: "ref \<Rightarrow> int \<Rightarrow> ref action" where
  "skip self n = copy_update self [Set_skip_number n]"

definition project :: "ref \<Rightarrow> model_type option \<Rightarrow> ref action" where
  "project self m = copy_update self [Set_projection_model m]"

definition one_q :: "ref \<Rightarrow> bool \<Rightarrow> ref action" where
  "one_q self b = copy_update self [Set_is_single b, Set_limit_number 1]"

text \<open>
  \<open>list(args) + self.sort_expressions\<close>: the pairs the query already holds are tuples.
\<close>

definition sort_tuples :: "(string \<times> SortDirection) list \<Rightarrow> sort_arg list" where
  "sort_tuples s = map (\<lambda>(f, d). PyTuple [PyStr f, PyDirection d]) s"

fun sort_q :: "ref \<Rightarrow> sort_arg list \<Rightarrow> ref action" where
  "sort_q self [] = raises ValueError_sort_requires_arguments"
| "sort_q self [PyList xs] = sort_q self xs"
| "sort_q self args =
     (\<lambda>h. copy_update self
             [Set_sort_expressions (args @ sort_tuples (sort_expressions (h ! self)))] h)"

text \<open>\<open>SessionMethods.set_session\<close> of \<open>beanie/odm/interfaces/session.py\<close>.\<close>

definition set_session :: "ref \<Rightarrow> ClientSession option \<Rightarrow> ref action" where
  "set_session self s = copy_q self (\<lambda>q. q\<lparr>session := s\<rparr>)"

text \<open>
  The keyword arguments of \<open>find\<close>. \<open>None\<close> stands for an argument that was not given;
  for \<open>sort\<close> that is \<open>PyNone\<close>.
\<close>

record find_kwargs =
  kw_skip :: "int option"
  kw_limit :: "int option"
  kw_sort :: sort_arg
  kw_one :: "bool option"
  kw_projection_model :: "model_type option"
  kw_session :: "ClientSession option"

definition find_q :: "ref \<Rightarrow> find_expr list \<Rightarrow> find_kwargs \<Rightarrow> ref action" where
  "find_q self args kw =
     (\<lambda>h. and_then (copy_update self [Set_find_expressions (find_expressions (h ! self) @ args)])
       (\<lambda>res. and_then (case kw_skip kw of Some n \<Rightarrow> skip res n | None \<Rightarrow> returns res)
       (\<lambda>res. and_then (case kw_limit kw of Some n \<Rightarrow> limit res n | None \<Rightarrow> returns res)
       (\<lambda>res. and_then (if kw_sort kw \<noteq> PyNone then sort_q res [kw_sort kw] else returns res)
       (\<lambda>res. and_then (case kw_one kw of Some b \<Rightarrow> one_q res b | None \<Rightarrow> returns res)
       (\<lambda>res. and_then (case kw_projection_model kw of
                          Some m \<Rightarrow> project res (Some m) | None \<Rightarrow> returns res)
       (\<lambda>res. case kw_session kw of
                 Some s \<Rightarrow> set_session res (Some s) | None \<Rightarrow> returns res)))))) h)"

definition find_many :: "ref \<Rightarrow> find_expr list \<Rightarrow> find_kwargs \<Rightarrow> ref action" where
  "find_many = find_q"

definition find_one :: "ref \<Rightarrow> find_expr list \<Rightarrow> find_kwargs \<Rightarrow> ref action" where
  "find_one self args kw = and_then (find_q self args kw) (\<lambda>res. one_q res True)"

section \<open>Getters and queries\<close>

definition get_filter_query :: "FindQuery \<Rightarrow> find_expr" where
  "get_filter_query self =
     (if find_expressions self \<noteq> [] then And (find_expressions self) else RawMapping [])"

type_synonym projection = "(string \<times> int) list"
type_synonym raw_document = "(string \<times> string) list"

datatype model_instance = Model_instance model_type raw_document

record find_params =
  param_filter :: find_expr
  param_projection :: projection
  param_session :: "ClientSession option"
  param_limit :: int
  param_skip :: int
  param_sort :: "(string \<times> SortDirection) list"

text \<open>
  What the queries use and this file does not define: the collection of a document model
  with its \<open>find_one\<close> and \<open>count_documents\<close>, \<open>get_projection\<close> of
  \<open>beanie.odm.utils.projection\<close>, and \<open>parse_obj\<close> of a projection model. They are taken
  as given.
\<close>

record collection =
  coll_find_one :: "find_params \<Rightarrow> raw_document option"
  coll_count_documents :: "find_expr \<Rightarrow> int"

record environment =
  get_motor_collection :: "model_type \<Rightarrow> collection"
  get_projection :: "model_type \<Rightarrow> projection"
  parse_obj :: "model_type \<Rightarrow> raw_document \<Rightarrow> error + model_instance"

text \<open>The calls a query issues to the collection of a document model, in order.\<close>

datatype db_call =
    Call_find_one model_type find_params
  | Call_count_documents model_type find_expr

definition find_query_params :: "environment \<Rightarrow> FindQuery \<Rightarrow> find_params" where
  "find_query_params env self =
     \<lparr> param_filter = get_filter_query self,
       param_projection = get_projection env (projection_model self),
       param_session = session self,
       param_limit = (if \<not> is_single self then limit_number self else 1),
       param_skip = skip_number self,
       param_sort = sort_expressions self \<rparr>"

text \<open>
  \<open>__await__\<close>. When the query is not single it hands over to \<open>to_list\<close> of
  \<open>BaseCursorQuery\<close>, which is outside this file: that branch is the value
  \<open>Await_to_list\<close>, and what \<open>to_list\<close> calls is not recorded.
\<close>

datatype await_result =
    Await_None
  | Await_document model_instance
  | Await_to_list

definition await_q :: "environment \<Rightarrow> FindQuery \<Rightarrow> (error + await_result) \<times> db_call list" where
  "await_q env self =
     (let params = find_query_params env self in
      if is_single self then
        (case coll_find_one (get_motor_collection env (document_model self)) params of
           None \<Rightarrow> (Inr Await_None, [Call_find_one (document_model self) params])
         | Some document \<Rightarrow>
             (case parse_obj env (projection_model self) document of
                Inl e \<Rightarrow> Inl e
              | Inr m \<Rightarrow> Inr (Await_document m),
              [Call_find_one (document_model self) params]))
      else (Inr Await_to_list, []))"

definition count_q :: "environment \<Rightarrow> FindQuery \<Rightarrow> int \<times> db_call list" where
  "count_q env self =
     (coll_count_documents (get_motor_collection env (document_model self))
        (get_filter_query self),
      [Call_count_documents (document_model self) (get_filter_query self)])"

section \<open>Notions used to state the properties\<close>

text \<open>\<open>find(*args)\<close> with every keyword argument left at its default.\<close>

definition no_kwargs :: find_kwargs where
  "no_kwargs =
     \<lparr> kw_skip = None, kw_limit = None, kw_sort = PyNone, kw_one = None,
       kw_projection_model = None, kw_session = None \<rparr>"

text \<open>A \<open>(field, direction)\<close> pair: a tuple of a string and a sort direction.\<close>

fun is_sort_pair :: "sort_arg \<Rightarrow> bool" where
  "is_sort_pair (PyTuple [PyStr f, PyDirection d]) = True"
| "is_sort_pair v = False"

text \<open>A sort spec is a string or a \<open>(field, direction)\<close> pair.\<close>

fun is_sort_spec :: "sort_arg \<Rightarrow> bool" where
  "is_sort_spec (PyStr s) = True"
| "is_sort_spec v = is_sort_pair v"

text \<open>
  \<open>step_ok R x h out\<close>: the outcome \<open>out\<close> of a method called on object \<open>x\<close> in store \<open>h\<close>
  leaves every object of \<open>h\<close> as it was, and when it returns an object, that object is
  \<open>x\<close> itself or a new one, and its fields are related by \<open>R\<close> to those of \<open>x\<close>.
\<close>

definition step_ok ::
  "(FindQuery \<Rightarrow> FindQuery \<Rightarrow> bool) \<Rightarrow> ref \<Rightarrow> heap \<Rightarrow> (error + ref) \<times> heap \<Rightarrow> bool" where
  "step_ok R x h out =
     (case out of (res, h') \<Rightarrow>
        take (length h) h' = h \<and>
        (case res of
           Inl e \<Rightarrow> True
         | Inr r \<Rightarrow> r < length h' \<and> (r = x \<or> length h \<le> r) \<and> R (h ! x) (h' ! r)))"

text \<open>
  The fields of the query \<open>b\<close> that \<open>find(*args, **kw)\<close> returns, in terms of the fields of
  the query \<open>a\<close> it was called on.
\<close>

definition find_fields :: "find_expr list \<Rightarrow> find_kwargs \<Rightarrow> FindQuery \<Rightarrow> FindQuery \<Rightarrow> bool" where
  "find_fields args kw a b =
     (document_model b = document_model a \<and>
      find_expressions b = find_expressions a @ args \<and>
      projection_model b =
        (case kw_projection_model kw of Some m \<Rightarrow> m | None \<Rightarrow> projection_model a) \<and>
      (\<exists>new. sort_expressions b = new @ sort_expressions a) \<and>
      skip_number b = (case kw_skip kw of Some n \<Rightarrow> n | None \<Rightarrow> skip_number a) \<and>
      limit_number b =
        (case kw_one kw of
           Some s \<Rightarrow> 1
         | None \<Rightarrow> (case kw_limit kw of Some n \<Rightarrow> n | None \<Rightarrow> limit_number a)) \<and>
      is_single b = (case kw_one kw of Some s \<Rightarrow> s | None \<Rightarrow> is_single a) \<and>
      cursor b = cursor a \<and>
      session b = (case kw_session kw of Some s \<Rightarrow> Some s | None \<Rightarrow> session a))"

text \<open>
  A collection that matches nothing on \<open>find_one\<close> and counts seven documents, and an
  environment around it, for concrete instances.
\<close>

definition example_collection :: collection where
  "example_collection = \<lparr> coll_find_one = (\<lambda>p. None), coll_count_documents = (\<lambda>f. 7) \<rparr>"

definition example_environment :: environment where
  "example_environment =
     \<lparr> get_motor_collection = (\<lambda>m. example_collection),
       get_projection = (\<lambda>m. []),
       parse_obj = (\<lambda>m d. Inr (Model_instance m d)) \<rparr>"

definition example_query :: FindQuery where
  "example_query = FindQuery_init ''Doc''"

section \<open>Each method in closed form\<close>

lemma and_then_returns [simp]: "and_then (returns x) f h = f x h"
  by (simp add: and_then_def returns_def)

lemma and_then_Inr: "m h = (Inr x, h1) \<Longrightarrow> and_then m f h = f x h1"
  by (simp add: and_then_def)

lemma limit_eq:
  "limit self n h =
     (if 0 \<le> n then (Inr (length h), h @ [(h ! self)\<lparr>limit_number := n\<rparr>])
      else (Inl ValidationError_not_ge_0, h @ [h ! self]))"
  by (simp add: limit_def copy_update_def copy_q_def and_then_def setattr_def returns_def)

lemma skip_eq:
  "skip self n h =
     (if 0 \<le> n then (Inr (length h), h @ [(h ! self)\<lparr>skip_number := n\<rparr>])
      else (Inl ValidationError_not_ge_0, h @ [h ! self]))"
  by (simp add: skip_def copy_update_def copy_q_def and_then_def setattr_def returns_def)

lemma project_eq:
  "project self m h =
     (Inr (length h),
      h @ [(h ! self)\<lparr>projection_model := default_projection_model m (document_model (h ! self))\<rparr>])"
  by (simp add: project_def copy_update_def copy_q_def and_then_def setattr_def returns_def)

lemma one_q_eq:
  "one_q self b h = (Inr (length h), h @ [(h ! self)\<lparr>is_single := b, limit_number := 1\<rparr>])"
  by (simp add: one_q_def copy_update_def copy_q_def and_then_def setattr_def returns_def)

lemma set_session_eq:
  "set_session self s h = (Inr (length h), h @ [(h ! self)\<lparr>session := s\<rparr>])"
  by (simp add: set_session_def copy_q_def)

lemma copy_update_sort_eq:
  "copy_update self [Set_sort_expressions v] h =
     (case validate_sort_expressions v of
        Inl e \<Rightarrow> (Inl e, h @ [h ! self])
      | Inr s \<Rightarrow> (Inr (length h), h @ [(h ! self)\<lparr>sort_expressions := s\<rparr>]))"
  by (simp add: copy_update_def copy_q_def and_then_def setattr_def returns_def split: sum.splits)

lemma copy_update_find_eq:
  "copy_update self [Set_find_expressions v] h =
     (Inr (length h), h @ [(h ! self)\<lparr>find_expressions := v\<rparr>])"
  by (simp add: copy_update_def copy_q_def and_then_def setattr_def returns_def)

lemma sort_q_general:
  "args \<noteq> [] \<Longrightarrow> (\<forall>xs. args \<noteq> [PyList xs]) \<Longrightarrow>
   sort_q self args h =
     copy_update self [Set_sort_expressions (args @ sort_tuples (sort_expressions (h ! self)))] h"
  by (cases "(self, args)" rule: sort_q.cases) simp_all

section \<open>Validation of sort lists\<close>

lemma fst_validate_each_Nil: "fst (validate_each f []) = Inr []"
  by simp

lemma fst_validate_each_Cons:
  "fst (validate_each f (x # xs)) =
     (case f x of
        Inl e \<Rightarrow> Inl e
      | Inr y \<Rightarrow> (case fst (validate_each f xs) of Inl e \<Rightarrow> Inl e | Inr ys \<Rightarrow> Inr (y # ys)))"
  by (cases "validate_each f xs") (simp split: sum.splits)


lemma validate_each_append:
  "fst (validate_each f (xs @ ys)) =
     (case fst (validate_each f xs) of
        Inl e \<Rightarrow> Inl e
      | Inr a \<Rightarrow> (case fst (validate_each f ys) of Inl e \<Rightarrow> Inl e | Inr b \<Rightarrow> Inr (a @ b)))"
  by (induction xs) (auto simp: fst_validate_each_Cons simp del: validate_each.simps(2)
      split: sum.splits)


lemma validate_each_nth:
  "fst (validate_each f xs) = Inr ys \<Longrightarrow>
   length ys = length xs \<and> (\<forall>i < length xs. f (xs ! i) = Inr (ys ! i))"
proof (induction xs arbitrary: ys)
  case Nil
  then show ?case by simp
next
  case (Cons x xs)
  then obtain y ys' where y: "f x = Inr y" and ys': "fst (validate_each f xs) = Inr ys'"
    and eq: "ys = y # ys'"
    by (auto simp: fst_validate_each_Cons simp del: validate_each.simps(2) split: sum.splits)
  from Cons.IH [OF ys'] have "length ys' = length xs"
    and nth: "\<forall>i < length xs. f (xs ! i) = Inr (ys' ! i)" by simp_all
  then show ?case using y eq by (auto simp: nth_Cons split: nat.splits)
qed

lemma validate_each_total:
  "(\<And>x. x \<in> set xs \<Longrightarrow> \<exists>y. f x = Inr y) \<Longrightarrow> \<exists>ys. fst (validate_each f xs) = Inr ys"
proof (induction xs)
  case Nil
  then show ?case by simp
next
  case (Cons x xs)
  then obtain y where "f x = Inr y" by force
  moreover from Cons obtain ys where "fst (validate_each f xs) = Inr ys" by force
  ultimately show ?case by (simp add: fst_validate_each_Cons del: validate_each.simps(2))
qed

lemma validate_sort_expressions_eq:
  "validate_sort_expressions val =
     fst (validate_each validate_sort_item (validate_sort_no_none val))"
  by (simp add: validate_sort_expressions_def validate_sort_expressions_run_def
      validate_list_field_def)

lemma no_none_sort_tuples: "validate_sort_no_none (sort_tuples s) = sort_tuples s"
  by (induction s) (auto simp: validate_sort_no_none_def sort_tuples_def)

lemma no_none_append:
  "validate_sort_no_none (xs @ ys) = validate_sort_no_none xs @ validate_sort_no_none ys"
  by (simp add: validate_sort_no_none_def)

lemma validate_each_sort_tuples:
  "fst (validate_each validate_sort_item (sort_tuples s)) = Inr s"
  by (induction s)
     (auto simp: sort_tuples_def validate_sort_item_def fst_validate_each_Cons
       simp del: validate_each.simps(2))

lemma validate_sort_expressions_existing:
  "validate_sort_expressions (args @ sort_tuples s) =
     (case validate_sort_expressions args of Inl e \<Rightarrow> Inl e | Inr new \<Rightarrow> Inr (new @ s))"
  by (simp add: validate_sort_expressions_eq no_none_append no_none_sort_tuples
      validate_each_append validate_each_sort_tuples split: sum.splits)

lemma sort_q_general_result:
  assumes "args \<noteq> []" and "\<forall>xs. args \<noteq> [PyList xs]"
  shows "sort_q self args h =
     (case validate_sort_expressions args of
        Inl e \<Rightarrow> (Inl e, h @ [h ! self])
      | Inr new \<Rightarrow>
          (Inr (length h),
           h @ [(h ! self)\<lparr>sort_expressions := new @ sort_expressions (h ! self)\<rparr>]))"
  using assms
  by (simp add: sort_q_general copy_update_sort_eq validate_sort_expressions_existing
      split: sum.splits)

lemma sort_q_cases:
  "sort_q self args h = (Inl ValueError_sort_requires_arguments, h) \<or>
   (\<exists>e. sort_q self args h = (Inl e, h @ [h ! self])) \<or>
   (\<exists>new. sort_q self args h =
      (Inr (length h), h @ [(h ! self)\<lparr>sort_expressions := new @ sort_expressions (h ! self)\<rparr>]))"
proof (induction self args rule: sort_q.induct)
  case (1 self)
  then show ?case by (simp add: raises_def)
next
  case (2 self xs)
  then show ?case by simp
qed (auto simp add: sort_q_general_result simp del: sort_q.simps split: sum.splits)

section \<open>Methods leave the objects of the store alone\<close>

lemma take_length_le: "take (length h) h1 = h \<Longrightarrow> length h \<le> length h1"
proof -
  assume a: "take (length h) h1 = h"
  have "length (take (length h) h1) \<le> length h1" by simp
  then show ?thesis unfolding a .
qed

lemma step_ok_returns: "x < length h \<Longrightarrow> R (h ! x) (h ! x) \<Longrightarrow> step_ok R x h (returns x h)"
  by (simp add: step_ok_def returns_def)

lemma step_ok_and_then:
  assumes m: "step_ok R1 x h (m h)"
    and f: "\<And>y h1. y < length h1 \<Longrightarrow> step_ok R2 y h1 (f y h1)"
  shows "step_ok (R1 OO R2) x h (and_then m f h)"
proof (cases "m h")
  case (Pair res h1)
  show ?thesis
  proof (cases res)
    case (Inl e)
    with Pair m show ?thesis by (simp add: and_then_def step_ok_def)
  next
    case (Inr y)
    with Pair m have h1: "take (length h) h1 = h" and y: "y < length h1"
      and yx: "y = x \<or> length h \<le> y" and r1: "R1 (h ! x) (h1 ! y)"
      by (simp_all add: step_ok_def)
    from h1 have len: "length h \<le> length h1"
      by (rule take_length_le)
    obtain res2 h2 where out: "f y h1 = (res2, h2)" by (cases "f y h1")
    from f [OF y] out have h2: "take (length h1) h2 = h1"
      and r2: "\<And>r. res2 = Inr r \<Longrightarrow>
                 r < length h2 \<and> (r = y \<or> length h1 \<le> r) \<and> R2 (h1 ! y) (h2 ! r)"
      by (auto simp: step_ok_def)
    have "take (length h) h2 = take (length h) (take (length h1) h2)"
      using len by (simp add: min_def)
    with h1 h2 have frame: "take (length h) h2 = h" by simp
    have eq: "and_then m f h = (res2, h2)"
      using Pair Inr out by (simp add: and_then_def)
    show ?thesis
    proof (cases res2)
      case (Inl e)
      with eq frame show ?thesis by (simp add: step_ok_def)
    next
      case (Inr r)
      from r2 [OF Inr] have "r < length h2" and ry: "r = y \<or> length h1 \<le> r"
        and "R2 (h1 ! y) (h2 ! r)" by simp_all
      moreover from ry yx len have "r = x \<or> length h \<le> r" by auto
      moreover have "(R1 OO R2) (h ! x) (h2 ! r)"
        using r1 \<open>R2 (h1 ! y) (h2 ! r)\<close> by auto
      ultimately show ?thesis using eq Inr frame by (simp add: step_ok_def)
    qed
  qed
qed

lemma step_ok_limit:
  "x < length h \<Longrightarrow> step_ok (\<lambda>a b. b = a\<lparr>limit_number := n\<rparr>) x h (limit x n h)"
  by (simp add: limit_eq step_ok_def)

lemma step_ok_skip:
  "x < length h \<Longrightarrow> step_ok (\<lambda>a b. b = a\<lparr>skip_number := n\<rparr>) x h (skip x n h)"
  by (simp add: skip_eq step_ok_def)

lemma step_ok_one_q:
  "x < length h \<Longrightarrow>
   step_ok (\<lambda>a b. b = a\<lparr>is_single := s, limit_number := 1\<rparr>) x h (one_q x s h)"
  by (simp add: one_q_eq step_ok_def)

lemma step_ok_set_session:
  "x < length h \<Longrightarrow> step_ok (\<lambda>a b. b = a\<lparr>session := s\<rparr>) x h (set_session x s h)"
  by (simp add: set_session_eq step_ok_def)

lemma step_ok_sort_q:
  "x < length h \<Longrightarrow>
   step_ok (\<lambda>a b. \<exists>new. b = a\<lparr>sort_expressions := new @ sort_expressions a\<rparr>)
     x h (sort_q x args h)"
  using sort_q_cases [of x args h] by (elim disjE exE) (simp_all add: step_ok_def, blast)

lemma step_ok_opt_skip:
  "x < length h \<Longrightarrow>
   step_ok (\<lambda>a b. b = (case k of Some n \<Rightarrow> a\<lparr>skip_number := n\<rparr> | None \<Rightarrow> a)) x h
     ((case k of Some n \<Rightarrow> skip x n | None \<Rightarrow> returns x) h)"
  by (cases k) (simp_all add: step_ok_skip step_ok_returns)

lemma step_ok_opt_limit:
  "x < length h \<Longrightarrow>
   step_ok (\<lambda>a b. b = (case k of Some n \<Rightarrow> a\<lparr>limit_number := n\<rparr> | None \<Rightarrow> a)) x h
     ((case k of Some n \<Rightarrow> limit x n | None \<Rightarrow> returns x) h)"
  by (cases k) (simp_all add: step_ok_limit step_ok_returns)

lemma step_ok_opt_sort:
  "x < length h \<Longrightarrow>
   step_ok (\<lambda>a b. \<exists>new. b = a\<lparr>sort_expressions := new @ sort_expressions a\<rparr>) x h
     ((if s \<noteq> PyNone then sort_q x [s] else returns x) h)"
proof (cases "s = PyNone")
  case True
  assume "x < length h"
  moreover have "\<exists>new. h ! x = (h ! x)\<lparr>sort_expressions := new @ sort_expressions (h ! x)\<rparr>"
    by (rule exI [of _ "[]"]) simp
  ultimately show ?thesis using True by (simp add: step_ok_returns)
next
  case False
  assume "x < length h"
  then show ?thesis using False by (simp add: step_ok_sort_q del: sort_q.simps)
qed

lemma step_ok_opt_one:
  "x < length h \<Longrightarrow>
   step_ok (\<lambda>a b. b = (case k of Some s \<Rightarrow> a\<lparr>is_single := s, limit_number := 1\<rparr> | None \<Rightarrow> a))
     x h ((case k of Some s \<Rightarrow> one_q x s | None \<Rightarrow> returns x) h)"
  by (cases k) (simp_all add: step_ok_one_q step_ok_returns)

lemma step_ok_opt_project:
  "x < length h \<Longrightarrow>
   step_ok (\<lambda>a b. b = (case k of Some m \<Rightarrow> a\<lparr>projection_model := m\<rparr> | None \<Rightarrow> a))
     x h ((case k of Some m \<Rightarrow> project x (Some m) | None \<Rightarrow> returns x) h)"
  by (cases k) (simp_all add: project_eq step_ok_def returns_def default_projection_model_def)

lemma step_ok_opt_session:
  "x < length h \<Longrightarrow>
   step_ok (\<lambda>a b. b = (case k of Some s \<Rightarrow> a\<lparr>session := Some s\<rparr> | None \<Rightarrow> a))
     x h ((case k of Some s \<Rightarrow> set_session x (Some s) | None \<Rightarrow> returns x) h)"
  by (cases k) (simp_all add: step_ok_set_session step_ok_returns)

lemma find_q_step_ok:
  "step_ok (find_fields [] kw) (length h) (h @ [q0])
     (and_then (case kw_skip kw of Some n \<Rightarrow> skip (length h) n | None \<Rightarrow> returns (length h))
       (\<lambda>res. and_then (case kw_limit kw of Some n \<Rightarrow> limit res n | None \<Rightarrow> returns res)
       (\<lambda>res. and_then (if kw_sort kw \<noteq> PyNone then sort_q res [kw_sort kw] else returns res)
       (\<lambda>res. and_then (case kw_one kw of Some b \<Rightarrow> one_q res b | None \<Rightarrow> returns res)
       (\<lambda>res. and_then (case kw_projection_model kw of
                          Some m \<Rightarrow> project res (Some m) | None \<Rightarrow> returns res)
       (\<lambda>res. case kw_session kw of
                 Some s \<Rightarrow> set_session res (Some s) | None \<Rightarrow> returns res))))) (h @ [q0]))"
  (is "step_ok _ _ _ ?out")
proof -
  let ?R = "(\<lambda>a b. b = (case kw_skip kw of Some n \<Rightarrow> a\<lparr>skip_number := n\<rparr> | None \<Rightarrow> a)) OO
    ((\<lambda>a b. b = (case kw_limit kw of Some n \<Rightarrow> a\<lparr>limit_number := n\<rparr> | None \<Rightarrow> a)) OO
    ((\<lambda>a b. \<exists>new. b = a\<lparr>sort_expressions := new @ sort_expressions a\<rparr>) OO
    ((\<lambda>a b. b = (case kw_one kw of Some s \<Rightarrow> a\<lparr>is_single := s, limit_number := 1\<rparr> | None \<Rightarrow> a)) OO
    ((\<lambda>a b. b = (case kw_projection_model kw of Some m \<Rightarrow> a\<lparr>projection_model := m\<rparr> | None \<Rightarrow> a)) OO
     (\<lambda>a b. b = (case kw_session kw of Some s \<Rightarrow> a\<lparr>session := Some s\<rparr> | None \<Rightarrow> a))))))"
  have lt: "length h < length (h @ [q0])" by simp
  have "step_ok ?R (length h) (h @ [q0]) ?out"
    by (intro step_ok_and_then step_ok_opt_skip step_ok_opt_limit step_ok_opt_sort
        step_ok_opt_one step_ok_opt_project step_ok_opt_session lt)
  moreover have "?R a b \<Longrightarrow> find_fields [] kw a b" for a b
    by (auto simp: find_fields_def split: option.splits)
  ultimately show ?thesis
    by (auto simp: step_ok_def split: prod.splits sum.splits)
qed

lemma take_Suc_append_one:
  assumes "take (Suc (length h)) h' = h @ [q]"
  shows "take (length h) h' = h"
proof -
  have "take (length h) h' = take (length h) (take (Suc (length h)) h')"
    by (simp add: min_def)
  also have "\<dots> = h" unfolding assms by simp
  finally show ?thesis .
qed

lemma find_q_unfold:
  "find_q self args kw h =
     and_then (case kw_skip kw of Some n \<Rightarrow> skip (length h) n | None \<Rightarrow> returns (length h))
       (\<lambda>res. and_then (case kw_limit kw of Some n \<Rightarrow> limit res n | None \<Rightarrow> returns res)
       (\<lambda>res. and_then (if kw_sort kw \<noteq> PyNone then sort_q res [kw_sort kw] else returns res)
       (\<lambda>res. and_then (case kw_one kw of Some b \<Rightarrow> one_q res b | None \<Rightarrow> returns res)
       (\<lambda>res. and_then (case kw_projection_model kw of
                          Some m \<Rightarrow> project res (Some m) | None \<Rightarrow> returns res)
       (\<lambda>res. case kw_session kw of
                 Some s \<Rightarrow> set_session res (Some s) | None \<Rightarrow> returns res)))))
       (h @ [(h ! self)\<lparr>find_expressions := find_expressions (h ! self) @ args\<rparr>])"
  unfolding find_q_def
  by (rule and_then_Inr) (rule copy_update_find_eq)

lemma find_q_outcome:
  assumes "find_q self args kw h = (res, h')"
  shows "take (length h) h' = h"
    and "res = Inr r \<Longrightarrow>
           length h \<le> r \<and> r < length h' \<and> find_fields args kw (h ! self) (h' ! r)"
proof -
  let ?q0 = "(h ! self)\<lparr>find_expressions := find_expressions (h ! self) @ args\<rparr>"
  from find_q_step_ok [of kw h ?q0] assms
  have ok: "step_ok (find_fields [] kw) (length h) (h @ [?q0]) (res, h')"
    by (simp only: find_q_unfold)
  then have "take (Suc (length h)) h' = h @ [?q0]"
    by (simp add: step_ok_def)
  then show "take (length h) h' = h" by (rule take_Suc_append_one)
  assume "res = Inr r"
  with ok have "r < length h'" and "r = length h \<or> Suc (length h) \<le> r"
    and "find_fields [] kw ?q0 (h' ! r)"
    by (simp_all add: step_ok_def)
  then show "length h \<le> r \<and> r < length h' \<and> find_fields args kw (h ! self) (h' ! r)"
    by (auto simp: find_fields_def cong: option.case_cong)
qed

lemma find_q_no_kwargs:
  "find_q self args no_kwargs h =
     (Inr (length h), h @ [(h ! self)\<lparr>find_expressions := find_expressions (h ! self) @ args\<rparr>])"
  by (simp add: find_q_unfold no_kwargs_def returns_def)

lemma frame_nth: "take (length h) h' = h \<Longrightarrow> self < length h \<Longrightarrow> h' ! self = h ! self"
  by (metis nth_take)

lemma find_one_outcome:
  assumes "find_one self args kw h = (res, h')"
  shows "take (length h) h' = h"
    and "res = Inr r \<Longrightarrow> length h \<le> r \<and> r < length h'"
proof -
  obtain res1 h1 where f: "find_q self args kw h = (res1, h1)"
    by (cases "find_q self args kw h")
  note fr = find_q_outcome [OF f]
  show "take (length h) h' = h"
  proof (cases res1)
    case (Inl e)
    with f assms fr(1) show ?thesis by (simp add: find_one_def and_then_def)
  next
    case (Inr x)
    with f assms have "h' = h1 @ [(h1 ! x)\<lparr>is_single := True, limit_number := 1\<rparr>]"
      by (simp add: find_one_def and_then_def one_q_eq)
    moreover have "length h \<le> length h1" using fr(1) by (rule take_length_le)
    ultimately show ?thesis using fr(1) by simp
  qed
  assume r: "res = Inr r"
  show "length h \<le> r \<and> r < length h'"
  proof (cases res1)
    case (Inl e)
    with f assms r show ?thesis by (simp add: find_one_def and_then_def)
  next
    case (Inr x)
    with f assms r have "r = length h1" and "length h' = Suc (length h1)"
      by (auto simp: find_one_def and_then_def one_q_eq)
    moreover have "length h \<le> length h1" using fr(1) by (rule take_length_le)
    ultimately show ?thesis by simp
  qed
qed

lemma sort_q_outcome:
  assumes "sort_q self args h = (res, h')"
  shows "take (length h) h' = h" and "res = Inr r \<Longrightarrow> length h \<le> r \<and> r < length h'"
  using sort_q_cases [of self args h] assms by auto

section \<open>Further facts for the claims\<close>

lemma nth_append_second: "(h @ [a, b]) ! Suc (length h) = b"
  by (simp add: nth_append)

lemmas sort_validation_eval =
  validate_sort_expressions_eq fst_validate_each_Nil fst_validate_each_Cons
  validate_sort_no_none_def validate_sort_item_def startswith_def

lemma is_sort_pair_iff: "is_sort_pair v = (\<exists>f d. v = PyTuple [PyStr f, PyDirection d])"
  by (cases v rule: is_sort_pair.cases) simp_all


lemma validate_sort_item_spec:
  "is_sort_spec x \<Longrightarrow> \<exists>y. validate_sort_item x = Inr y"
  by (cases x) (auto simp: validate_sort_item_def is_sort_pair_iff)

lemma no_none_specs:
  "\<forall>x \<in> set args. is_sort_spec x \<Longrightarrow> validate_sort_no_none args = args"
  unfolding validate_sort_no_none_def
  by (rule filter_True) (auto simp: is_sort_pair_iff)

lemma sort_a_then_b:
  "and_then (sort_q self [PyStr ''a'']) (\<lambda>x. sort_q x [PyStr ''b'']) h =
     (Inr (Suc (length h)),
      h @ [(h ! self)\<lparr>sort_expressions := (''a'', ASCENDING) # sort_expressions (h ! self)\<rparr>,
           (h ! self)\<lparr>sort_expressions :=
              (''b'', ASCENDING) # (''a'', ASCENDING) # sort_expressions (h ! self)\<rparr>])"
  by (simp add: sort_q_general_result and_then_def sort_validation_eval
      del: sort_q.simps validate_each.simps)

section \<open>The claims\<close>

text \<open>
  C1. Every builder transform (\<open>limit\<close>, \<open>skip\<close>, \<open>project\<close>, \<open>one\<close>, \<open>sort\<close>,
  \<open>find\<close>/\<open>find_many\<close>, \<open>find_one\<close>, \<open>set_session\<close>) is pure. Called on a query
  \<open>self\<close> of the store \<open>h\<close>, whether it returns or raises, every object of \<open>h\<close> is left as
  it was, \<open>self\<close> among them; the query it returns is a new object, not \<open>self\<close>; and
  \<open>self\<close> behaves afterwards as before: it has the same execution parameters, awaits to
  the same result and counts the same.
\<close>

theorem builder_transforms_are_pure:
  assumes "self < length h"
    and "T \<in> {limit self n, skip self n, project self m, one_q self b, sort_q self sargs,
               find_q self fargs kw, find_many self fargs kw, find_one self fargs kw,
               set_session self s}"
    and "T h = (res, h')"
  shows "take (length h) h' = h \<and> h' ! self = h ! self \<and>
         (\<forall>r. res = Inr r \<longrightarrow> r \<noteq> self \<and> length h \<le> r \<and> r < length h') \<and>
         find_query_params env (h' ! self) = find_query_params env (h ! self) \<and>
         await_q env (h' ! self) = await_q env (h ! self) \<and>
         count_q env (h' ! self) = count_q env (h ! self)"
proof -
  have main: "take (length h) h' = h \<and> (\<forall>r. res = Inr r \<longrightarrow> length h \<le> r \<and> r < length h')"
  proof -
    consider "T = limit self n" | "T = skip self n" | "T = project self m"
      | "T = one_q self b" | "T = sort_q self sargs" | "T = find_q self fargs kw"
      | "T = find_one self fargs kw" | "T = set_session self s"
      using assms(2) by (auto simp: find_many_def)
    then show ?thesis
    proof cases
      case 1
      with assms(3) show ?thesis by (auto simp: limit_eq split: if_splits)
    next
      case 2
      with assms(3) show ?thesis by (auto simp: skip_eq split: if_splits)
    next
      case 3
      with assms(3) show ?thesis by (auto simp: project_eq)
    next
      case 4
      with assms(3) show ?thesis by (auto simp: one_q_eq)
    next
      case 5
      with assms(3) sort_q_outcome [of self sargs h res h'] show ?thesis by blast
    next
      case 6
      with assms(3) find_q_outcome [of self fargs kw h res h'] show ?thesis by blast
    next
      case 7
      with assms(3) find_one_outcome [of self fargs kw h res h'] show ?thesis by blast
    next
      case 8
      with assms(3) show ?thesis by (auto simp: set_session_eq)
    qed
  qed
  then have same: "h' ! self = h ! self" using assms(1) by (simp add: frame_nth)
  from main assms(1) have "\<forall>r. res = Inr r \<longrightarrow> r \<noteq> self" by auto
  with main same show ?thesis by simp
qed

theorem builder_transforms_are_pure_witness:
  "(0::nat) < length [example_query] \<and>
   one_q 0 True [example_query] =
     (Inr 1, [example_query, example_query\<lparr>is_single := True, limit_number := 1\<rparr>]) \<and>
   take (length [example_query])
     [example_query, example_query\<lparr>is_single := True, limit_number := 1\<rparr>] = [example_query] \<and>
   [example_query, example_query\<lparr>is_single := True, limit_number := 1\<rparr>] ! 0 =
     [example_query] ! 0 \<and>
   await_q example_environment
     ([example_query, example_query\<lparr>is_single := True, limit_number := 1\<rparr>] ! 0) =
     await_q example_environment ([example_query] ! 0)"
  using builder_transforms_are_pure [where self = 0 and h = "[example_query]"
      and T = "one_q 0 True" and b = True and res = "Inr 1"
      and h' = "[example_query, example_query\<lparr>is_single := True, limit_number := 1\<rparr>]"
      and n = 0 and m = None and sargs = "[]" and fargs = "[]" and kw = no_kwargs
      and s = None and env = example_environment]
  by (simp add: one_q_eq)

text \<open>
  C2. \<open>one(b)\<close> returns a query with \<open>is_single = b\<close> and \<open>limit_number = 1\<close>, every other
  field as in the receiver. In the execution parameters the limit is 1 when \<open>is_single\<close>
  holds and \<open>limit_number\<close> otherwise. So \<open>.limit(n).one(b)\<close> has the effective limit 1,
  whatever \<open>n\<close> was.
\<close>

theorem one_forces_limit_1:
  "one_q self b h = (Inr (length h), h @ [(h ! self)\<lparr>is_single := b, limit_number := 1\<rparr>]) \<and>
   param_limit (find_query_params env q) = (if is_single q then 1 else limit_number q) \<and>
   (0 \<le> n \<longrightarrow>
     (\<exists>r h'. and_then (limit self n) (\<lambda>x. one_q x b) h = (Inr r, h') \<and> r < length h' \<and>
       is_single (h' ! r) = b \<and> limit_number (h' ! r) = 1 \<and>
       param_limit (find_query_params env (h' ! r)) = 1))"
  by (simp add: one_q_eq find_query_params_def limit_eq and_then_def nth_append_second)

theorem one_forces_limit_1_witness:
  "(0::int) \<le> 50 \<and>
   (\<exists>r h'. and_then (limit 0 50) (\<lambda>x. one_q x True) [example_query] = (Inr r, h') \<and>
      r < length h' \<and> is_single (h' ! r) = True \<and> limit_number (h' ! r) = 1 \<and>
      param_limit (find_query_params example_environment (h' ! r)) = 1)"
proof -
  have "(0::int) \<le> 50" by simp
  with one_forces_limit_1 [where n = 50 and self = 0 and b = True and h = "[example_query]"
      and env = example_environment and q = example_query]
  show ?thesis by blast
qed

text \<open>
  C3. \<open>sort\<close>, called with a non-empty argument list of sort specs, returns a query whose
  \<open>sort_expressions\<close> are the normalized new specs, in the order given, followed by the
  receiver's \<open>sort_expressions\<close>; a single list of specs as the only argument is the same
  call as with its items. \<open>Q.sort("a").sort("b")\<close> has the \<open>sort_expressions\<close>
  \<open>[(b, ascending), (a, ascending)]\<close> followed by those of \<open>Q\<close>, which is that list itself
  for a \<open>Q\<close> not sorted before.
\<close>

theorem sort_prepends_new_specs:
  assumes "args \<noteq> []" and "\<forall>x \<in> set args. is_sort_spec x"
  shows "(\<exists>new. validate_sort_expressions args = Inr new \<and> length new = length args \<and>
           (\<forall>i < length args. validate_sort_item (args ! i) = Inr (new ! i)) \<and>
           sort_q self args h =
             (Inr (length h),
              h @ [(h ! self)\<lparr>sort_expressions := new @ sort_expressions (h ! self)\<rparr>])) \<and>
         sort_q self [PyList args] h = sort_q self args h \<and>
         (\<exists>r h'. and_then (sort_q self [PyStr ''a'']) (\<lambda>x. sort_q x [PyStr ''b'']) h = (Inr r, h') \<and>
            r < length h' \<and>
            sort_expressions (h' ! r) =
              [(''b'', ASCENDING), (''a'', ASCENDING)] @ sort_expressions (h ! self) \<and>
            (sort_expressions (h ! self) = [] \<longrightarrow>
               sort_expressions (h' ! r) = [(''b'', ASCENDING), (''a'', ASCENDING)]))"
proof -
  from assms(2) have "\<exists>ys. fst (validate_each validate_sort_item args) = Inr ys"
    by (intro validate_each_total validate_sort_item_spec) simp
  then obtain new where new: "fst (validate_each validate_sort_item args) = Inr new" ..
  with assms(2) have v: "validate_sort_expressions args = Inr new"
    by (simp add: validate_sort_expressions_eq no_none_specs)
  from assms have "\<forall>xs. args \<noteq> [PyList xs]" by auto
  with assms(1) v have "sort_q self args h =
      (Inr (length h), h @ [(h ! self)\<lparr>sort_expressions := new @ sort_expressions (h ! self)\<rparr>])"
    by (simp add: sort_q_general_result del: sort_q.simps)
  with v validate_each_nth [OF new]
  have first: "\<exists>new. validate_sort_expressions args = Inr new \<and> length new = length args \<and>
           (\<forall>i < length args. validate_sort_item (args ! i) = Inr (new ! i)) \<and>
           sort_q self args h =
             (Inr (length h),
              h @ [(h ! self)\<lparr>sort_expressions := new @ sort_expressions (h ! self)\<rparr>])"
    by simp
  have second: "sort_q self [PyList args] h = sort_q self args h" by simp
  have third: "\<exists>r h'. and_then (sort_q self [PyStr ''a'']) (\<lambda>x. sort_q x [PyStr ''b'']) h = (Inr r, h') \<and>
            r < length h' \<and>
            sort_expressions (h' ! r) =
              [(''b'', ASCENDING), (''a'', ASCENDING)] @ sort_expressions (h ! self) \<and>
            (sort_expressions (h ! self) = [] \<longrightarrow>
               sort_expressions (h' ! r) = [(''b'', ASCENDING), (''a'', ASCENDING)])"
    by (simp add: sort_a_then_b nth_append_second del: sort_q.simps)
  from first second third show ?thesis by blast
qed

theorem sort_prepends_new_specs_witness:
  "[PyStr ''-n'', PyTuple [PyStr ''m'', PyDirection ASCENDING]] \<noteq> [] \<and>
   is_sort_spec (PyStr ''-n'') \<and> is_sort_spec (PyTuple [PyStr ''m'', PyDirection ASCENDING]) \<and>
   sort_q 0 [PyStr ''-n'', PyTuple [PyStr ''m'', PyDirection ASCENDING]]
       [example_query\<lparr>sort_expressions := [(''k'', ASCENDING)]\<rparr>] =
     (Inr 1,
      [example_query\<lparr>sort_expressions := [(''k'', ASCENDING)]\<rparr>,
       example_query\<lparr>sort_expressions :=
         [(''n'', DESCENDING), (''m'', ASCENDING), (''k'', ASCENDING)]\<rparr>])"
  using sort_prepends_new_specs
    [where args = "[PyStr ''-n'', PyTuple [PyStr ''m'', PyDirection ASCENDING]]"
      and self = 0 and h = "[example_query\<lparr>sort_expressions := [(''k'', ASCENDING)]\<rparr>]"]
  by (auto simp: sort_validation_eval simp del: validate_each.simps)

text \<open>
  C4. \<open>find\<close> appends its arguments after the receiver's \<open>find_expressions\<close>, whatever
  keyword arguments it is given, and called with no keyword argument it always returns.
  \<open>get_filter_query\<close> is \<open>And\<close> of all \<open>find_expressions\<close> in their order when there is
  one, and the empty mapping when there is none. So \<open>Q.find(P1).find(P2)\<close> filters by
  \<open>And\<close> of the expressions of \<open>Q\<close>, then \<open>P1\<close>, then \<open>P2\<close>: by \<open>And(P1, P2)\<close> for a \<open>Q\<close>
  without expressions.
\<close>

theorem find_appends_filter_is_and:
  "(find_q self args kw h = (Inr r, h') \<longrightarrow>
      find_expressions (h' ! r) = find_expressions (h ! self) @ args) \<and>
   find_q self args no_kwargs h =
     (Inr (length h), h @ [(h ! self)\<lparr>find_expressions := find_expressions (h ! self) @ args\<rparr>]) \<and>
   get_filter_query q =
     (if find_expressions q = [] then RawMapping [] else And (find_expressions q)) \<and>
   (\<exists>r h'. and_then (find_q self [P1] no_kwargs) (\<lambda>x. find_q x [P2] no_kwargs) h = (Inr r, h') \<and>
      find_expressions (h' ! r) = find_expressions (h ! self) @ [P1, P2] \<and>
      get_filter_query (h' ! r) = And (find_expressions (h ! self) @ [P1, P2]) \<and>
      (find_expressions (h ! self) = [] \<longrightarrow> get_filter_query (h' ! r) = And [P1, P2]))"
proof -
  have "find_q self args kw h = (Inr r, h') \<longrightarrow>
      find_expressions (h' ! r) = find_expressions (h ! self) @ args"
    using find_q_outcome(2) [of self args kw h "Inr r" h' r] by (simp add: find_fields_def)
  then show ?thesis
    by (simp add: find_q_no_kwargs get_filter_query_def and_then_def nth_append_second)
qed

theorem find_appends_filter_is_and_witness:
  "find_q 0 [FindOperator ''n > 1'']
      (no_kwargs\<lparr>kw_skip := Some 1, kw_limit := Some 2, kw_sort := PyStr ''-n''\<rparr>)
      [example_query\<lparr>find_expressions := [RawMapping [(''a'', ''1'')]]\<rparr>] =
     (Inr 4,
      [example_query\<lparr>find_expressions := [RawMapping [(''a'', ''1'')]]\<rparr>,
       example_query\<lparr>find_expressions := [RawMapping [(''a'', ''1'')], FindOperator ''n > 1'']\<rparr>,
       example_query\<lparr>find_expressions := [RawMapping [(''a'', ''1'')], FindOperator ''n > 1''],
         skip_number := 1\<rparr>,
       example_query\<lparr>find_expressions := [RawMapping [(''a'', ''1'')], FindOperator ''n > 1''],
         skip_number := 1, limit_number := 2\<rparr>,
       example_query\<lparr>find_expressions := [RawMapping [(''a'', ''1'')], FindOperator ''n > 1''],
         sort_expressions := [(''n'', DESCENDING)], skip_number := 1, limit_number := 2\<rparr>]) \<and>
   find_expressions
     (example_query\<lparr>find_expressions := [RawMapping [(''a'', ''1'')], FindOperator ''n > 1''],
         sort_expressions := [(''n'', DESCENDING)], skip_number := 1, limit_number := 2\<rparr>) =
     find_expressions (example_query\<lparr>find_expressions := [RawMapping [(''a'', ''1'')]]\<rparr>) @
       [FindOperator ''n > 1'']"
  using find_appends_filter_is_and [where self = 0 and args = "[FindOperator ''n > 1'']"
      and kw = "no_kwargs\<lparr>kw_skip := Some 1, kw_limit := Some 2, kw_sort := PyStr ''-n''\<rparr>"
      and h = "[example_query\<lparr>find_expressions := [RawMapping [(''a'', ''1'')]]\<rparr>]"
      and r = 4 and q = example_query and ?P1.0 = "FindOperator ''p''"
      and ?P2.0 = "FindOperator ''q''"
      and h' = "[example_query\<lparr>find_expressions := [RawMapping [(''a'', ''1'')]]\<rparr>,
       example_query\<lparr>find_expressions := [RawMapping [(''a'', ''1'')], FindOperator ''n > 1'']\<rparr>,
       example_query\<lparr>find_expressions := [RawMapping [(''a'', ''1'')], FindOperator ''n > 1''],
         skip_number := 1\<rparr>,
       example_query\<lparr>find_expressions := [RawMapping [(''a'', ''1'')], FindOperator ''n > 1''],
         skip_number := 1, limit_number := 2\<rparr>,
       example_query\<lparr>find_expressions := [RawMapping [(''a'', ''1'')], FindOperator ''n > 1''],
         sort_expressions := [(''n'', DESCENDING)], skip_number := 1, limit_number := 2\<rparr>]"]
  by (simp add: find_q_unfold no_kwargs_def skip_eq limit_eq and_then_def returns_def
      sort_q_general_result sort_validation_eval example_query_def FindQuery_init_def
      del: sort_q.simps validate_each.simps)

text \<open>
  C5. \<open>count\<close> issues one \<open>count_documents\<close> call, on the collection of the document
  model, with the filter of \<open>get_filter_query\<close> and nothing else. \<open>skip_number\<close>,
  \<open>limit_number\<close>, \<open>projection_model\<close>, \<open>sort_expressions\<close> and \<open>is_single\<close> have no
  effect on it: \<open>Q.skip(10).limit(5).count()\<close> is \<open>Q.count()\<close>, the number the collection
  reports for the filter.
\<close>

theorem count_uses_filter_only:
  "count_q env q =
     (coll_count_documents (get_motor_collection env (document_model q)) (get_filter_query q),
      [Call_count_documents (document_model q) (get_filter_query q)]) \<and>
   count_q env (q\<lparr>skip_number := sk, limit_number := li, projection_model := pm,
                  sort_expressions := so, is_single := si\<rparr>) = count_q env q \<and>
   (\<exists>r h'. and_then (skip self 10) (\<lambda>x. limit x 5) h = (Inr r, h') \<and>
      limit_number (h' ! r) = 5 \<and> skip_number (h' ! r) = 10 \<and>
      count_q env (h' ! r) = count_q env (h ! self))"
  by (simp add: count_q_def get_filter_query_def skip_eq limit_eq and_then_def
      nth_append_second)

theorem count_uses_filter_only_witness:
  "count_q example_environment
     (example_query\<lparr>skip_number := 10, limit_number := 5, projection_model := ''View'',
        sort_expressions := [(''n'', DESCENDING)], is_single := True\<rparr>) =
     (7, [Call_count_documents ''Doc'' (RawMapping [])])"
  using count_uses_filter_only [where env = example_environment and self = 0
      and h = "[example_query]" and q = example_query and sk = 10 and li = 5
      and pm = "''View''" and so = "[(''n'', DESCENDING)]" and si = True]
  by (simp add: example_environment_def example_collection_def example_query_def
      FindQuery_init_def get_filter_query_def)

text \<open>
  C6. Awaiting a query with \<open>is_single = true\<close> issues exactly one call, a \<open>find_one\<close> on
  the collection of the document model with the assembled parameters, whose limit is 1.
  When the collection returns no record the result is \<open>None\<close>, not an error; otherwise
  the result is what \<open>parse_obj\<close> of the projection model makes of the record.
\<close>

theorem await_single_query:
  assumes "is_single q"
  shows "await_q env q =
      (case coll_find_one (get_motor_collection env (document_model q))
              (find_query_params env q) of
         None \<Rightarrow> Inr Await_None
       | Some d \<Rightarrow>
           (case parse_obj env (projection_model q) d of
              Inl e \<Rightarrow> Inl e
            | Inr m \<Rightarrow> Inr (Await_document m)),
       [Call_find_one (document_model q) (find_query_params env q)]) \<and>
    length (snd (await_q env q)) = 1 \<and>
    param_limit (find_query_params env q) = 1"
  using assms
  by (simp add: await_q_def Let_def find_query_params_def split: option.splits)

theorem await_single_query_witness:
  "is_single (example_query\<lparr>limit_number := 1, is_single := True\<rparr>) \<and>
   await_q example_environment (example_query\<lparr>limit_number := 1, is_single := True\<rparr>) =
     (Inr Await_None,
      [Call_find_one ''Doc''
         \<lparr> param_filter = RawMapping [], param_projection = [], param_session = None,
           param_limit = 1, param_skip = 0, param_sort = [] \<rparr>])"
  using await_single_query [where q = "example_query\<lparr>limit_number := 1, is_single := True\<rparr>"
      and env = example_environment]
  by (simp add: example_environment_def example_collection_def example_query_def
      FindQuery_init_def find_query_params_def get_filter_query_def)






text \<open>
  C9. \<open>sort\<close> called with no argument raises the \<open>ValueError\<close>
  "'sort()' requires arguments." at the call and leaves the store, the receiver with it,
  as it was; it never returns a query. The same holds for an empty list as the only
  argument, which is the call with no argument.
\<close>

theorem sort_without_arguments_raises:
  "sort_q self [] h = (Inl ValueError_sort_requires_arguments, h) \<and>
   sort_q self [PyList []] h = (Inl ValueError_sort_requires_arguments, h) \<and>
   (\<forall>r h'. sort_q self [] h \<noteq> (Inr r, h'))"
  by (simp add: raises_def)

theorem sort_without_arguments_raises_witness:
  "sort_q 0 [] [example_query] = (Inl ValueError_sort_requires_arguments, [example_query])"
  using sort_without_arguments_raises [where self = 0 and h = "[example_query]"]
  by simp

text \<open>
  C10. \<open>one(false)\<close> sets \<open>limit_number = 1\<close> as \<open>one(true)\<close> does, and so does
  \<open>find(one = False)\<close>: whenever \<open>find\<close> is given \<open>one = False\<close> and returns, its result
  has \<open>is_single = false\<close> and \<open>limit_number = 1\<close>, also when \<open>limit = n\<close> was given in
  the same call or set by \<open>.limit(n)\<close> before.
\<close>

theorem one_false_still_sets_limit_1:
  "one_q self False h =
     (Inr (length h), h @ [(h ! self)\<lparr>is_single := False, limit_number := 1\<rparr>]) \<and>
   (find_q self args kw h = (Inr r, h') \<and> kw_one kw = Some False \<longrightarrow>
      is_single (h' ! r) = False \<and> limit_number (h' ! r) = 1) \<and>
   (0 \<le> n \<longrightarrow>
      (\<exists>r h'. and_then (limit self n) (\<lambda>x. one_q x False) h = (Inr r, h') \<and>
         is_single (h' ! r) = False \<and> limit_number (h' ! r) = 1) \<and>
      (\<exists>r h'. find_q self args (no_kwargs\<lparr>kw_limit := Some n, kw_one := Some False\<rparr>) h =
         (Inr r, h')))"
proof -
  have "find_q self args kw h = (Inr r, h') \<and> kw_one kw = Some False \<longrightarrow>
      is_single (h' ! r) = False \<and> limit_number (h' ! r) = 1"
    using find_q_outcome(2) [of self args kw h "Inr r" h' r] by (simp add: find_fields_def)
  then show ?thesis
    by (simp add: one_q_eq limit_eq and_then_def find_q_unfold no_kwargs_def returns_def
        nth_append_second)
qed

theorem one_false_still_sets_limit_1_witness:
  "(0::int) \<le> 50 \<and>
   find_q 0 [] (no_kwargs\<lparr>kw_limit := Some 50, kw_one := Some False\<rparr>) [example_query] =
     (Inr 3,
      [example_query, example_query, example_query\<lparr>limit_number := 50\<rparr>,
       example_query\<lparr>limit_number := 1, is_single := False\<rparr>]) \<and>
   kw_one (no_kwargs\<lparr>kw_limit := Some 50, kw_one := Some False\<rparr>) = Some False \<and>
   is_single (example_query\<lparr>limit_number := 1, is_single := False\<rparr>) = False \<and>
   limit_number (example_query\<lparr>limit_number := 1, is_single := False\<rparr>) = 1"
  using one_false_still_sets_limit_1 [where self = 0 and args = "[]" and n = 50
      and kw = "no_kwargs\<lparr>kw_limit := Some 50, kw_one := Some False\<rparr>"
      and h = "[example_query]" and r = 3
      and h' = "[example_query, example_query, example_query\<lparr>limit_number := 50\<rparr>,
       example_query\<lparr>limit_number := 1, is_single := False\<rparr>]"]
  by (simp add: find_q_unfold no_kwargs_def limit_eq one_q_eq and_then_def returns_def
      example_query_def FindQuery_init_def)

end
